theory Spec2Isabelle
  imports Main
begin

section \<open>JavaScript values and plain objects\<close>

text \<open>
  The values the modal host handles: configuration entries, props and callbacks. Numbers
  are the integral ones (pixel offsets, durations). A function is given by the text that
  \<^verbatim>\<open>String(f)\<close> yields for it, which also serves as its name. A plain object is the list
  of its own enumerable properties in insertion order (keys that look like array indices,
  which JavaScript enumerates first, do not occur among configuration and style names).
\<close>

datatype jsval =
    Undefined
  | Null
  | Bool bool
  | Num int
  | Str string
  | Fn string
  | Obj "(string \<times> jsval) list"

type_synonym obj = "(string \<times> jsval) list"

text \<open>Truthiness, as \<^verbatim>\<open>if (v)\<close>, \<^verbatim>\<open>v || w\<close> and \<^verbatim>\<open>!v\<close> read a value.\<close>

fun truthy :: "jsval \<Rightarrow> bool" where
  "truthy Undefined = False"
| "truthy Null = False"
| "truthy (Bool b) = b"
| "truthy (Num n) = (n \<noteq> 0)"
| "truthy (Str s) = (s \<noteq> [])"
| "truthy (Fn f) = True"
| "truthy (Obj ps) = True"

text \<open>Property read \<^verbatim>\<open>o.k\<close>: a missing property reads as \<^verbatim>\<open>undefined\<close>.\<close>

definition obj_get :: "obj \<Rightarrow> string \<Rightarrow> jsval" where
  "obj_get ob k = (case map_of ob k of None \<Rightarrow> Undefined | Some v \<Rightarrow> v)"

text \<open>Property write \<^verbatim>\<open>o[k] = v\<close>: an existing property keeps its place, a new one is appended.\<close>

fun obj_set :: "obj \<Rightarrow> string \<Rightarrow> jsval \<Rightarrow> obj" where
  "obj_set [] k v = [(k, v)]"
| "obj_set ((k', v') # ps) k v =
     (if k' = k then (k, v) # ps else (k', v') # obj_set ps k v)"

text \<open>
  Decimal text of a number, as a template literal \<^verbatim>\<open>`${n}`\<close> prints an integral one.
\<close>

definition digit_char :: "nat \<Rightarrow> char" where
  "digit_char d = ''0123456789'' ! (d mod 10)"

function nat_digits :: "nat \<Rightarrow> string" where
  "nat_digits n =
     (if n < 10 then [digit_char n] else nat_digits (n div 10) @ [digit_char (n mod 10)])"
  by pat_completeness auto
termination
  by (relation "measure id") auto

declare nat_digits.simps [simp del]

definition number_to_string :: "int \<Rightarrow> string" where
  "number_to_string i =
     (if i < 0 then CHR ''-'' # nat_digits (nat (- i)) else nat_digits (nat i))"

text \<open>
  The text of a value in a template literal \<^verbatim>\<open>`${v}`\<close>; an object is a plain one, without a
  \<^verbatim>\<open>toString\<close> of its own.
\<close>

fun to_display :: "jsval \<Rightarrow> string" where
  "to_display Undefined = ''undefined''"
| "to_display Null = ''null''"
| "to_display (Bool b) = (if b then ''true'' else ''false'')"
| "to_display (Num n) = number_to_string n"
| "to_display (Str s) = s"
| "to_display (Fn f) = f"
| "to_display (Obj ps) = ''[object Object]''"

text \<open>
  The own enumerable properties an object spread \<^verbatim>\<open>...v\<close> copies: those of an object, the
  indexed characters of a string, none of \<^verbatim>\<open>undefined\<close>, \<^verbatim>\<open>null\<close>, a boolean, a number
  or a function.
\<close>

fun own_props :: "jsval \<Rightarrow> obj" where
  "own_props (Obj ps) = ps"
| "own_props (Str s) = zip (map nat_digits [0..<length s]) (map (\<lambda>c. Str [c]) s)"
| "own_props v = []"

text \<open>
  \<^verbatim>\<open>{ ...tgt, ...src }\<close> continued on a target built so far: every own key of the source, in
  order, is read from the source and written to the target.
\<close>

definition spread :: "obj \<Rightarrow> obj \<Rightarrow> obj" where
  "spread tgt src = fold (\<lambda>k t. obj_set t k (obj_get src k)) (map fst src) tgt"

section \<open>Inline style strings\<close>

text \<open>
  \<^verbatim>\<open>str.replace(/([a-zA-Z])(?=[A-Z])/g, '$1-').toLowerCase()\<close> on ASCII text: a dash goes
  after every letter that stands before a capital, then capitals become small letters.
\<close>

definition upper_letters :: string where
  "upper_letters = ''ABCDEFGHIJKLMNOPQRSTUVWXYZ''"

definition lower_letters :: string where
  "lower_letters = ''abcdefghijklmnopqrstuvwxyz''"

definition toLowerCase :: "string \<Rightarrow> string" where
  "toLowerCase str =
     map (\<lambda>c. case map_of (zip upper_letters lower_letters) c of None \<Rightarrow> c | Some l \<Rightarrow> l) str"

fun dash_before_capitals :: "string \<Rightarrow> string" where
  "dash_before_capitals (c # d # cs) =
     (if (c \<in> set upper_letters \<or> c \<in> set lower_letters) \<and> d \<in> set upper_letters
      then c # CHR ''-'' # dash_before_capitals (d # cs)
      else c # dash_before_capitals (d # cs))"
| "dash_before_capitals cs = cs"

definition camelCaseToDash :: "string \<Rightarrow> string" where
  "camelCaseToDash str = toLowerCase (dash_before_capitals str)"

text \<open>
  \<^verbatim>\<open>props ? Object.keys(props).reduce((str, key) => `${str}; ${camelCaseToDash(key)}: ${props[key]}`, '') : ''\<close>
\<close>

definition toCssString :: "jsval \<Rightarrow> string" where
  "toCssString props =
     (if truthy props
      then fold (\<lambda>k str. str @ ''; '' @ camelCaseToDash k @ '': ''
                          @ to_display (obj_get (own_props props) k))
             (map fst (own_props props)) []
      else [])"

section \<open>The module script: bind\<close>

text \<open>
  \<^verbatim>\<open>bind(Component, props = {})\<close> returns the closure \<^verbatim>\<open>ModalComponent\<close>, which holds the
  component and the bound props. An omitted (\<^verbatim>\<open>undefined\<close>) argument is \<open>None\<close>.
\<close>

datatype bound = Bound jsval obj

datatype construction = New (new_component: jsval) (new_options: obj)

definition bind :: "jsval \<Rightarrow> obj option \<Rightarrow> bound" where
  "bind C props = Bound C (case props of None \<Rightarrow> [] | Some p \<Rightarrow> p)"

text \<open>
  The body of the closure: \<^verbatim>\<open>new Component({ ...options, props: { ...props, ...options.props } })\<close>.
\<close>

fun ModalComponent :: "bound \<Rightarrow> obj \<Rightarrow> construction" where
  "ModalComponent (Bound C props) options =
     New C (obj_set (spread [] options) ''props''
              (Obj (spread (spread [] props) (own_props (obj_get options ''props'')))))"

text \<open>The props a construction hands to the component: the entries of its \<^verbatim>\<open>props\<close> option.\<close>

definition instance_props :: "construction \<Rightarrow> obj" where
  "instance_props c = own_props (obj_get (new_options c) ''props'')"

section \<open>The component state and the browser it writes to\<close>

type_synonym elem = nat

datatype error = TypeError

text \<open>
  The four lifecycle handlers. \<open>ToVoid\<close> is the initial \<^verbatim>\<open>toVoid\<close>; the four hooks are the
  closures \<^verbatim>\<open>openModal\<close> installs, each over the callback object of that call;
  \<open>Supplied v\<close> is a caller's function that \<^verbatim>\<open>closeModal\<close> put in the handler's place.
\<close>

datatype handler =
    ToVoid
  | OpenHook obj
  | CloseHook obj
  | OpenedHook obj
  | ClosedHook obj
  | Supplied jsval

datatype effect = Call jsval | Dispatch string

text \<open>What a handler does when the transition calls it.\<close>

fun run_handler :: "handler \<Rightarrow> effect list" where
  "run_handler ToVoid = []"
| "run_handler (OpenHook cb) =
     (if truthy (obj_get cb ''onOpen'') then [Call (obj_get cb ''onOpen'')] else [])
       @ [Dispatch ''open'', Dispatch ''opening'']"
| "run_handler (CloseHook cb) =
     (if truthy (obj_get cb ''onClose'') then [Call (obj_get cb ''onClose'')] else [])
       @ [Dispatch ''close'', Dispatch ''closing'']"
| "run_handler (OpenedHook cb) =
     (if truthy (obj_get cb ''onOpened'') then [Call (obj_get cb ''onOpened'')] else [])
       @ [Dispatch ''opened'']"
| "run_handler (ClosedHook cb) =
     (if truthy (obj_get cb ''onClosed'') then [Call (obj_get cb ''onClosed'')] else [])
       @ [Dispatch ''closed'']"
| "run_handler (Supplied v) = [Call v]"

text \<open>
  What the script reads and writes of the browser: the inline style of
  \<^verbatim>\<open>document.body\<close> (each property a string, kept as written), the scroll position of
  \<^verbatim>\<open>window\<close>, and the part of the document the focus trap looks at (the descendants of
  an element in document order, as \<^verbatim>\<open>querySelectorAll('*')\<close> lists them, the tab index of
  an element, whether \<^verbatim>\<open>focus()\<close> on an element takes effect, the focused element). An
  element with a non-negative tab index need not take the focus: a disabled button and a
  hidden input have tab index 0, and \<^verbatim>\<open>focus()\<close> on them does nothing. Then the variables
  of the instance script. A variable declared without a value (\<^verbatim>\<open>let scrollY;\<close>) is
  \<open>None\<close> until it is assigned.

  The reactive \<^verbatim>\<open>show\<close> block and the mount and destroy hooks, which only call
  \<^verbatim>\<open>openModal\<close> and \<^verbatim>\<open>closeModal\<close>, are not part of the model.
\<close>

record browser =
  body_position :: string
  body_top :: string
  body_overflow :: string
  body_width :: string
  window_scrollX :: int
  window_scrollY :: int
  window_innerWidth :: int
  window_innerHeight :: int
  descendants :: "elem \<Rightarrow> elem list"
  tabIndex :: "elem \<Rightarrow> int"
  can_focus :: "elem \<Rightarrow> bool"
  activeElement :: "elem option"

record modal = browser +
  defaultState :: obj
  state :: obj
  Component :: "bound option"
  background :: "elem option"
  wrap :: "elem option"
  modalWindow :: "elem option"
  scrollY :: "int option"
  prevBodyPosition :: "string option"
  prevBodyOverflow :: "string option"
  prevBodyWidth :: "string option"
  cssBg :: "string option"
  cssWindowWrap :: "string option"
  cssWindow :: "string option"
  cssContent :: "string option"
  cssCloseButton :: "string option"
  currentTransitionBg :: jsval
  currentTransitionWindow :: jsval
  outerClickTarget :: "elem option"
  loading :: bool
  onOpen :: handler
  onClose :: handler
  onOpened :: handler
  onClosed :: handler

record key_event =
  key :: string
  shiftKey :: bool

record mouse_event =
  target :: elem

section \<open>Scroll lock\<close>

text \<open>\<^verbatim>\<open>prev || ''\<close> on a saved style value.\<close>

definition or_empty :: "string option \<Rightarrow> string" where
  "or_empty prev = (case prev of None \<Rightarrow> [] | Some p \<Rightarrow> (if p = [] then [] else p))"

definition disableScroll :: "modal \<Rightarrow> modal" where
  "disableScroll s =
     s\<lparr> scrollY := Some (window_scrollY s),
        prevBodyPosition := Some (body_position s),
        prevBodyOverflow := Some (body_overflow s),
        prevBodyWidth := Some (body_width s),
        body_position := ''fixed'',
        body_top := ''-'' @ number_to_string (window_scrollY s) @ ''px'',
        body_overflow := ''hidden'',
        body_width := ''100%'' \<rparr>"

text \<open>
  \<^verbatim>\<open>window.scrollTo(0, scrollY)\<close>: the horizontal offset becomes 0; a vertical argument
  that is not a finite number (the unassigned \<^verbatim>\<open>scrollY\<close>) is taken as 0.
\<close>

definition enableScroll :: "modal \<Rightarrow> modal" where
  "enableScroll s =
     s\<lparr> body_position := or_empty (prevBodyPosition s),
        body_top := [],
        body_overflow := or_empty (prevBodyOverflow s),
        body_width := or_empty (prevBodyWidth s),
        window_scrollX := 0,
        window_scrollY := (case scrollY s of None \<Rightarrow> 0 | Some y \<Rightarrow> y) \<rparr>"

section \<open>The control API\<close>

text \<open>
  The style strings and transitions the markup reads, recomputed from \<open>state\<close>. The
  background gets \<^verbatim>\<open>Object.assign({}, { width, height }, state.styleBg)\<close> with the size
  of the window.
\<close>

definition updateStyleTransition :: "modal \<Rightarrow> modal" where
  "updateStyleTransition s =
     s\<lparr> cssBg := Some (toCssString (Obj
                 (spread (spread [] [(''width'', Num (window_innerWidth s)),
                                     (''height'', Num (window_innerHeight s))])
                    (own_props (obj_get (state s) ''styleBg''))))),
        cssWindowWrap := Some (toCssString (obj_get (state s) ''styleWindowWrap'')),
        cssWindow := Some (toCssString (obj_get (state s) ''styleWindow'')),
        cssContent := Some (toCssString (obj_get (state s) ''styleContent'')),
        cssCloseButton := Some (toCssString (obj_get (state s) ''styleCloseButton'')),
        currentTransitionBg := obj_get (state s) ''transitionBg'',
        currentTransitionWindow := obj_get (state s) ''transitionWindow'' \<rparr>"

definition changeModalContent :: "jsval \<Rightarrow> obj option \<Rightarrow> obj option \<Rightarrow> modal \<Rightarrow> modal" where
  "changeModalContent NewComponent newProps options s =
     updateStyleTransition
       (s\<lparr> Component := Some (bind NewComponent newProps),
           state := spread (spread [] (defaultState s))
                      (case options of None \<Rightarrow> [] | Some ov \<Rightarrow> ov) \<rparr>)"

definition openModal ::
  "jsval \<Rightarrow> obj option \<Rightarrow> obj option \<Rightarrow> obj option \<Rightarrow> modal \<Rightarrow> modal" where
  "openModal NewComponent newProps options callback s =
     (let cb = (case callback of None \<Rightarrow> [] | Some c \<Rightarrow> c);
          s1 = s\<lparr> Component := Some (bind NewComponent newProps),
                  state := spread (spread [] (defaultState s))
                             (case options of None \<Rightarrow> [] | Some ov \<Rightarrow> ov) \<rparr>;
          s2 = disableScroll (updateStyleTransition s1)
      in s2\<lparr> onOpen := OpenHook cb,
             onClose := CloseHook cb,
             onOpened := OpenedHook cb,
             onClosed := ClosedHook cb \<rparr>)"

text \<open>\<^verbatim>\<open>callback.k || current\<close> on a handler.\<close>

definition or_handler :: "jsval \<Rightarrow> handler \<Rightarrow> handler" where
  "or_handler v current = (if truthy v then Supplied v else current)"

definition closeModal :: "obj option \<Rightarrow> modal \<Rightarrow> modal" where
  "closeModal callback s =
     (if Component s = None then s
      else
        (let cb = (case callback of None \<Rightarrow> [] | Some c \<Rightarrow> c)
         in enableScroll
              (s\<lparr> onClose := or_handler (obj_get cb ''onClose'') (onClose s),
                  onClosed := or_handler (obj_get cb ''onClosed'') (onClosed s),
                  Component := None \<rparr>)))"

definition isLoading :: "bool option \<Rightarrow> modal \<Rightarrow> modal" where
  "isLoading flag s = s\<lparr> loading := (case flag of None \<Rightarrow> True | Some b \<Rightarrow> b) \<rparr>"

section \<open>Keyboard and pointer handlers\<close>

text \<open>\<^verbatim>\<open>xs.indexOf(x)\<close>: the first position of \<open>x\<close>, or -1. No element is \<^verbatim>\<open>null\<close>.\<close>

fun indexOf_from :: "elem list \<Rightarrow> elem \<Rightarrow> int \<Rightarrow> int" where
  "indexOf_from [] a i = - 1"
| "indexOf_from (x # xs) a i = (if x = a then i else indexOf_from xs a (i + 1))"

definition indexOf :: "elem list \<Rightarrow> elem option \<Rightarrow> int" where
  "indexOf xs a = (case a of None \<Rightarrow> - 1 | Some e \<Rightarrow> indexOf_from xs e 0)"

text \<open>
  The remainder operator \<^verbatim>\<open>%\<close> on integral numbers: the sign of the dividend, and
  \<^verbatim>\<open>NaN\<close> (\<open>None\<close>) for a zero divisor.
\<close>

definition js_rem :: "int \<Rightarrow> int \<Rightarrow> int option" where
  "js_rem a b = (if b = 0 then None else Some (sgn a * (\<bar>a\<bar> mod \<bar>b\<bar>)))"

text \<open>\<^verbatim>\<open>xs[i]\<close>: \<^verbatim>\<open>undefined\<close> (\<open>None\<close>) when \<open>i\<close> is \<^verbatim>\<open>NaN\<close> or no index of \<open>xs\<close>.\<close>

definition array_get :: "'a list \<Rightarrow> int option \<Rightarrow> 'a option" where
  "array_get xs i =
     (case i of
        None \<Rightarrow> None
      | Some j \<Rightarrow> (if 0 \<le> j \<and> j < int (length xs) then Some (xs ! nat j) else None))"

text \<open>
  The result of a handler: the state it leaves, whether it called
  \<^verbatim>\<open>event.preventDefault()\<close>, and the exception it threw, if any. A method call on
  \<^verbatim>\<open>undefined\<close> throws a \<^verbatim>\<open>TypeError\<close>: \<^verbatim>\<open>modalWindow.querySelectorAll\<close> on an unbound
  window, \<^verbatim>\<open>tabbable[index].focus()\<close> on a missing entry. \<^verbatim>\<open>focus()\<close> on an element
  makes it the focused one when it can take the focus and does nothing otherwise.
\<close>

definition handleKeydown :: "key_event \<Rightarrow> modal \<Rightarrow> modal \<times> bool \<times> error option" where
  "handleKeydown event s =
     (let (s1, prevented) =
            (if truthy (obj_get (state s) ''closeOnEsc'') \<and> Component s \<noteq> None
                \<and> key event = ''Escape''
             then (closeModal None s, True)
             else (s, False))
      in
        if Component s1 \<noteq> None \<and> key event = ''Tab''
           \<and> \<not> truthy (obj_get (state s1) ''disableFocusTrap'')
        then
          (case modalWindow s1 of
             None \<Rightarrow> (s1, prevented, Some TypeError)
           | Some w \<Rightarrow>
               (let nodes = descendants s1 w;
                    tabbable = filter (\<lambda>node. tabIndex s1 node \<ge> 0) nodes;
                    index0 = indexOf tabbable (activeElement s1);
                    index1 = (if index0 = - 1 \<and> shiftKey event then 0 else index0);
                    index2 = index1 + int (length tabbable)
                               + (if shiftKey event then - 1 else 1);
                    index3 = js_rem index2 (int (length tabbable))
                in
                  (case array_get tabbable index3 of
                     None \<Rightarrow> (s1, prevented, Some TypeError)
                   | Some node \<Rightarrow>
                       ((if can_focus s1 node then s1\<lparr> activeElement := Some node \<rparr> else s1),
                        True, None))))
        else (s1, prevented, None))"

definition handleOuterMousedown :: "mouse_event \<Rightarrow> modal \<Rightarrow> modal" where
  "handleOuterMousedown event s =
     (if truthy (obj_get (state s) ''closeOnOuterClick'')
         \<and> (Some (target event) = background s \<or> Some (target event) = wrap s)
      then s\<lparr> outerClickTarget := Some (target event) \<rparr>
      else s)"

definition handleOuterMouseup :: "mouse_event \<Rightarrow> modal \<Rightarrow> modal \<times> bool" where
  "handleOuterMouseup event s =
     (if truthy (obj_get (state s) ''closeOnOuterClick'')
         \<and> Some (target event) = outerClickTarget s
      then (closeModal None s, True)
      else (s, False))"

section \<open>The state at creation, and sample inputs\<close>

text \<open>
  \<^verbatim>\<open>defaultState\<close> is built once from the props of the host; these are the values the
  props have when the parent passes none.
\<close>

definition documented_defaults :: obj where
  "documented_defaults =
     [(''ariaLabel'', Null), (''ariaLabelledBy'', Null), (''closeButton'', Bool True),
      (''closeOnEsc'', Bool True), (''closeOnOuterClick'', Bool True),
      (''styleBg'', Obj []), (''styleWindowWrap'', Obj []), (''styleWindow'', Obj []),
      (''styleContent'', Obj []), (''styleCloseButton'', Obj []),
      (''classBg'', Null), (''classWindowWrap'', Null), (''classWindow'', Null),
      (''classContent'', Null), (''classCloseButton'', Null),
      (''transitionBg'', Fn ''fade''), (''transitionBgProps'', Obj [(''duration'', Num 250)]),
      (''transitionWindow'', Fn ''fade''),
      (''transitionWindowProps'', Obj [(''duration'', Num 250)]),
      (''disableFocusTrap'', Bool False), (''unstyled'', Bool False)]"

text \<open>The script's variables as their declarations leave them, over a given browser.\<close>

definition initial :: "obj \<Rightarrow> browser \<Rightarrow> modal" where
  "initial props doc =
     \<lparr> body_position = body_position doc, body_top = body_top doc,
       body_overflow = body_overflow doc, body_width = body_width doc,
       window_scrollX = window_scrollX doc, window_scrollY = window_scrollY doc,
       window_innerWidth = window_innerWidth doc, window_innerHeight = window_innerHeight doc,
       descendants = descendants doc, tabIndex = tabIndex doc,
       can_focus = can_focus doc, activeElement = activeElement doc,
       defaultState = props, state = spread [] props, Component = None,
       background = None, wrap = None, modalWindow = None, scrollY = None,
       prevBodyPosition = None, prevBodyOverflow = None, prevBodyWidth = None,
       cssBg = None, cssWindowWrap = None, cssWindow = None, cssContent = None,
       cssCloseButton = None, currentTransitionBg = Undefined,
       currentTransitionWindow = Undefined,
       outerClickTarget = None, loading = False,
       onOpen = ToVoid, onClose = ToVoid, onOpened = ToVoid, onClosed = ToVoid \<rparr>"

text \<open>
  The framework's part once the \<^verbatim>\<open>{#if Component}\<close> block is created: the three
  \<^verbatim>\<open>bind:this\<close> variables refer to the elements of the markup.
\<close>

definition bind_this :: "elem \<Rightarrow> elem \<Rightarrow> elem \<Rightarrow> modal \<Rightarrow> modal" where
  "bind_this bg wr win s = s\<lparr> background := Some bg, wrap := Some wr, modalWindow := Some win \<rparr>"

text \<open>
  A sample page: the body scrolls (\<^verbatim>\<open>overflow: auto\<close>), the window is scrolled down by 120
  pixels. The markup of the modal is element 1 (background), 2 (wrapper) and 3 (window);
  the window holds a close button 10, a content box 11 (tab index -1), and in it an input
  12 and a button 13, all three enabled.
\<close>

definition sample_page :: browser where
  "sample_page =
     \<lparr> body_position = [], body_top = [], body_overflow = ''auto'', body_width = [],
       window_scrollX = 0, window_scrollY = 120,
       window_innerWidth = 1280, window_innerHeight = 720,
       descendants = (\<lambda>e. if e = 3 then [10, 11, 12, 13] else []),
       tabIndex = (\<lambda>e. if e = 10 \<or> e = 12 \<or> e = 13 then 0 else - 1),
       can_focus = (\<lambda>e. e = 10 \<or> e = 12 \<or> e = 13),
       activeElement = None \<rparr>"

text \<open>The same page when the window holds the content box 11 alone: nothing to focus.\<close>

definition plain_page :: browser where
  "plain_page = sample_page\<lparr> descendants := (\<lambda>e. if e = 3 then [11] else []) \<rparr>"


text \<open>
  A session on the sample page, rendered; one without a close button on the plain page;
  and one on the page with the disabled button.
\<close>

definition sample_open :: modal where
  "sample_open =
     bind_this 1 2 3
       (openModal (Fn ''Content'') None None None (initial documented_defaults sample_page))"

definition plain_open :: modal where
  "plain_open =
     bind_this 1 2 3
       (openModal (Fn ''Content'') None (Some [(''closeButton'', Bool False)]) None
          (initial documented_defaults plain_page))"


definition tab_event :: "bool \<Rightarrow> key_event" where
  "tab_event shift = \<lparr> key = ''Tab'', shiftKey = shift \<rparr>"

definition escape_event :: "bool \<Rightarrow> key_event" where
  "escape_event shift = \<lparr> key = ''Escape'', shiftKey = shift \<rparr>"

section \<open>Scroll lock: engage then disengage\<close>

lemma or_empty_Some [simp]: "or_empty (Some p) = p"
  by (simp add: or_empty_def)

text \<open>
  C4. For any prior inline values of the body's position, overflow, width and top and any
  prior vertical scroll offset, \<open>disableScroll\<close> followed by \<open>enableScroll\<close> leaves position,
  overflow, width and the vertical scroll offset as they were and top empty. The vertical
  offset is put back even when the window was scrolled in between. (The horizontal offset
  is not part of the snapshot: \<^verbatim>\<open>scrollTo\<close> sets it to 0.)
\<close>

theorem scroll_lock_roundtrip:
  "body_position (enableScroll (disableScroll s)) = body_position s
   \<and> body_overflow (enableScroll (disableScroll s)) = body_overflow s
   \<and> body_width (enableScroll (disableScroll s)) = body_width s
   \<and> window_scrollY (enableScroll (disableScroll s)) = window_scrollY s
   \<and> body_top (enableScroll (disableScroll s)) = []
   \<and> window_scrollY (enableScroll ((disableScroll s)\<lparr> window_scrollY := y \<rparr>)) = window_scrollY s"
  by (simp add: enableScroll_def disableScroll_def)

section \<open>Merging objects\<close>

lemma map_of_obj_set: "map_of (obj_set ob k v) = (map_of ob)(k \<mapsto> v)"
  by (induction ob k v rule: obj_set.induct) auto

text \<open>Copying the keys \<open>ks\<close> of a source: those keys read as in the source, the others as before.\<close>

lemma map_of_fold_set:
  "set ks \<subseteq> fst ` set src \<Longrightarrow>
   map_of (fold (\<lambda>k t. obj_set t k (obj_get src k)) ks tgt) k
     = (if k \<in> set ks then map_of src k else map_of tgt k)"
proof (induction ks arbitrary: tgt)
  case Nil
  then show ?case by simp
next
  case (Cons a ks)
  from Cons.prems obtain v where v: "map_of src a = Some v"
    by (metis list.set_intros(1) map_of_eq_None_iff not_Some_eq subsetD)
  then have g: "obj_get src a = v" by (simp add: obj_get_def)
  from Cons.prems have sub: "set ks \<subseteq> fst ` set src" by simp
  show ?case
    using Cons.IH [OF sub, of "obj_set tgt a (obj_get src a)"] v g
    by (auto simp: map_of_obj_set)
qed

lemma map_of_spread:
  "map_of (spread tgt src) k = (case map_of src k of None \<Rightarrow> map_of tgt k | Some v \<Rightarrow> Some v)"
proof (cases "map_of src k")
  case None
  then have "k \<notin> fst ` set src" by (simp add: map_of_eq_None_iff)
  with None show ?thesis unfolding spread_def by (subst map_of_fold_set) auto
next
  case (Some v)
  then have "k \<in> fst ` set src" by (metis map_of_eq_None_iff option.distinct(1))
  with Some show ?thesis unfolding spread_def by (subst map_of_fold_set) auto
qed

lemma map_of_spread_empty: "map_of (spread [] src) k = map_of src k"
  by (simp add: map_of_spread split: option.splits)

lemma map_of_merge:
  "map_of (spread (spread [] d) ov) k
     = (case map_of ov k of None \<Rightarrow> map_of d k | Some v \<Rightarrow> Some v)"
  by (simp add: map_of_spread map_of_spread_empty split: option.splits)

lemma obj_get_merge:
  "obj_get (spread (spread [] d) ov) k
     = (case map_of ov k of None \<Rightarrow> obj_get d k | Some v \<Rightarrow> v)"
  by (simp add: obj_get_def map_of_merge split: option.splits)

text \<open>
  C7. After \<open>openModal\<close> and after \<open>changeModalContent\<close> with overrides \<open>ov\<close>, every key \<open>k\<close>
  of the session configuration reads as in \<open>ov\<close> when \<open>ov\<close> has it and as in \<open>defaultState\<close>
  otherwise (a key of neither is absent); with no overrides the configuration reads as
  \<open>defaultState\<close>; \<open>defaultState\<close> itself is never changed.
\<close>

theorem merged_configuration:
  "map_of (state (openModal C p (Some ov) cb s)) k
     = (case map_of ov k of None \<Rightarrow> map_of (defaultState s) k | Some v \<Rightarrow> Some v)
   \<and> map_of (state (changeModalContent C p (Some ov) s)) k
     = (case map_of ov k of None \<Rightarrow> map_of (defaultState s) k | Some v \<Rightarrow> Some v)
   \<and> map_of (state (openModal C p None cb s)) k = map_of (defaultState s) k
   \<and> map_of (state (changeModalContent C p None s)) k = map_of (defaultState s) k
   \<and> defaultState (openModal C p ovs cb s) = defaultState s
   \<and> defaultState (changeModalContent C p ovs s) = defaultState s"
  by (simp add: openModal_def updateStyleTransition_def changeModalContent_def disableScroll_def Let_def map_of_merge)

text \<open>
  C10. The closure \<open>bind C p\<close> constructs \<open>C\<close>, and every key \<open>k\<close> of the props it passes
  reads as in \<^verbatim>\<open>options.props\<close> when that has the key and as in \<open>p\<close> otherwise; so for
  options whose \<^verbatim>\<open>props\<close> is the object \<open>q\<close>, \<open>q\<close> wins on a collision. \<open>bind\<close> without
  props is \<open>bind\<close> with the empty object.
\<close>

theorem bind_merges_props:
  "new_component (ModalComponent (bind C (Some p)) options) = C
   \<and> map_of (instance_props (ModalComponent (bind C (Some p)) options)) k
       = (case map_of (own_props (obj_get options ''props'')) k of
            None \<Rightarrow> map_of p k | Some v \<Rightarrow> Some v)
   \<and> map_of (instance_props
         (ModalComponent (bind C (Some p)) (obj_set options ''props'' (Obj q)))) k
       = (case map_of q k of None \<Rightarrow> map_of p k | Some v \<Rightarrow> Some v)
   \<and> bind C None = bind C (Some [])"
  by (simp add: bind_def instance_props_def obj_get_def map_of_obj_set map_of_merge)

section \<open>Escape\<close>

lemma Component_closeModal: "Component (closeModal cb s) = None"
  by (simp add: closeModal_def enableScroll_def Let_def)

text \<open>
  C9. On an Escape key press the handler calls \<open>closeModal\<close> (and \<^verbatim>\<open>preventDefault\<close>)
  exactly when \<^verbatim>\<open>closeOnEsc\<close> is truthy and a session is active, and then no session is
  left; otherwise it returns the state as it was, session or not, and throws nothing.
\<close>

theorem escape_closes_iff:
  "handleKeydown (escape_event shift) s
     = (if truthy (obj_get (state s) ''closeOnEsc'') \<and> Component s \<noteq> None
        then (closeModal None s, True, None) else (s, False, None))
   \<and> Component (closeModal None s) = None"
  by (simp add: handleKeydown_def escape_event_def Component_closeModal)

section \<open>The focus trap\<close>








lemma sample_open_state: "state sample_open = spread (spread [] documented_defaults) []"
  by (simp add: sample_open_def bind_this_def openModal_def updateStyleTransition_def
      disableScroll_def initial_def Let_def)


lemma sample_open_fields:
  "Component sample_open \<noteq> None"
  "modalWindow sample_open = Some 3"
  "descendants sample_open 3 = [10, 11, 12, 13]"
  "tabIndex sample_open = (\<lambda>e. if e = 10 \<or> e = 12 \<or> e = 13 then 0 else - 1)"
  "can_focus sample_open = (\<lambda>e. e = 10 \<or> e = 12 \<or> e = 13)"
  by (simp_all add: sample_open_def bind_this_def openModal_def updateStyleTransition_def
      disableScroll_def initial_def sample_page_def Let_def)






text \<open>With nothing to focus, the remainder is \<^verbatim>\<open>NaN\<close> and the method call throws.\<close>

lemma empty_focusable_throws:
  assumes "Component s \<noteq> None"
    and "\<not> truthy (obj_get (state s) ''disableFocusTrap'')"
    and "modalWindow s = Some w"
    and "filter (\<lambda>node. 0 \<le> tabIndex s node) (descendants s w) = []"
  shows "handleKeydown (tab_event shift) s = (s, False, Some TypeError)"
  using assms
  by (simp add: handleKeydown_def tab_event_def Let_def js_rem_def array_get_def)

lemma plain_open_state:
  "state plain_open = spread (spread [] documented_defaults) [(''closeButton'', Bool False)]"
  by (simp add: plain_open_def bind_this_def openModal_def updateStyleTransition_def disableScroll_def initial_def Let_def)

lemma plain_open_trap: "\<not> truthy (obj_get (state plain_open) ''disableFocusTrap'')"
  unfolding plain_open_state obj_get_merge
  by (simp add: obj_get_def documented_defaults_def)

lemma plain_open_fields:
  "Component plain_open \<noteq> None"
  "modalWindow plain_open = Some 3"
  "filter (\<lambda>node. 0 \<le> tabIndex plain_open node) (descendants plain_open 3) = []"
  by (simp_all add: plain_open_def bind_this_def openModal_def updateStyleTransition_def disableScroll_def initial_def
      plain_page_def sample_page_def Let_def)

text \<open>
  C2. The claim asks for a silent no-op on an empty focusable set. Evaluated on the plain
  session (active, focus trap on, window bound, no descendant with a non-negative tab
  index), Tab and Shift+Tab both end in a \<^verbatim>\<open>TypeError\<close>: the state is as before, the focus
  has not moved, and \<^verbatim>\<open>preventDefault\<close> was not reached.
\<close>

theorem tab_on_empty_focusable_set_throws:
  "Component plain_open \<noteq> None
   \<and> filter (\<lambda>node. 0 \<le> tabIndex plain_open node) (descendants plain_open 3) = []
   \<and> handleKeydown (tab_event False) plain_open = (plain_open, False, Some TypeError)
   \<and> handleKeydown (tab_event True) plain_open = (plain_open, False, Some TypeError)"
  by (simp add: plain_open_fields
      empty_focusable_throws [OF plain_open_fields(1) plain_open_trap plain_open_fields(2,3)])

section \<open>Opening while open\<close>

text \<open>
  Every \<open>openModal\<close> runs \<open>disableScroll\<close>, so a second one saves the values the first one
  wrote, and the close that follows writes those back.
\<close>

lemma open_open_close_body:
  "body_position (closeModal cb (openModal Y p2 o2 c2 (openModal X p1 o1 c1 s))) = ''fixed''
   \<and> body_overflow (closeModal cb (openModal Y p2 o2 c2 (openModal X p1 o1 c1 s))) = ''hidden''
   \<and> body_width (closeModal cb (openModal Y p2 o2 c2 (openModal X p1 o1 c1 s))) = ''100%''"
  by (simp add: closeModal_def openModal_def updateStyleTransition_def enableScroll_def disableScroll_def Let_def)

text \<open>
  C1. The claim asks that open, open, close puts the body back as it was before the first
  open and that the second open keeps the first snapshot. Evaluated on the sample page
  (position and width empty, overflow \<^verbatim>\<open>auto\<close>): the first open saves overflow \<^verbatim>\<open>auto\<close>, the
  second open overwrites the snapshot with \<^verbatim>\<open>fixed\<close>, \<^verbatim>\<open>hidden\<close>, \<^verbatim>\<open>100%\<close>, and after the
  close no session is left while the body is still fixed, hidden and 100% wide.
\<close>

theorem open_twice_then_close_leaves_body_locked:
  "body_position (initial documented_defaults sample_page) = []
   \<and> body_overflow (initial documented_defaults sample_page) = ''auto''
   \<and> body_width (initial documented_defaults sample_page) = []
   \<and> prevBodyOverflow (openModal (Fn ''X'') None None None
        (initial documented_defaults sample_page)) = Some ''auto''
   \<and> prevBodyOverflow (openModal (Fn ''Y'') None None None
        (openModal (Fn ''X'') None None None (initial documented_defaults sample_page)))
       = Some ''hidden''
   \<and> prevBodyPosition (openModal (Fn ''Y'') None None None
        (openModal (Fn ''X'') None None None (initial documented_defaults sample_page)))
       = Some ''fixed''
   \<and> prevBodyWidth (openModal (Fn ''Y'') None None None
        (openModal (Fn ''X'') None None None (initial documented_defaults sample_page)))
       = Some ''100%''
   \<and> Component (closeModal None (openModal (Fn ''Y'') None None None
        (openModal (Fn ''X'') None None None (initial documented_defaults sample_page)))) = None
   \<and> body_position (closeModal None (openModal (Fn ''Y'') None None None
        (openModal (Fn ''X'') None None None (initial documented_defaults sample_page))))
       = ''fixed''
   \<and> body_overflow (closeModal None (openModal (Fn ''Y'') None None None
        (openModal (Fn ''X'') None None None (initial documented_defaults sample_page))))
       = ''hidden''
   \<and> body_width (closeModal None (openModal (Fn ''Y'') None None None
        (openModal (Fn ''X'') None None None (initial documented_defaults sample_page))))
       = ''100%''"
  by (simp add: open_open_close_body Component_closeModal)
     (simp add: openModal_def updateStyleTransition_def disableScroll_def initial_def sample_page_def Let_def)

section \<open>Outside clicks\<close>

lemma sample_open_outer: "truthy (obj_get (state sample_open) ''closeOnOuterClick'')"
  unfolding sample_open_state obj_get_merge
  by (simp add: obj_get_def documented_defaults_def)

lemma sample_open_markup:
  "background sample_open = Some 1" "wrap sample_open = Some 2"
  "outerClickTarget sample_open = None"
  by (simp_all add: sample_open_def bind_this_def openModal_def updateStyleTransition_def disableScroll_def initial_def
      Let_def)

lemma outerClickTarget_closeModal: "outerClickTarget (closeModal cb s) = outerClickTarget s"
  by (simp add: closeModal_def enableScroll_def Let_def)

text \<open>No pointer-up clears the remembered target.\<close>

lemma handleOuterMouseup_keeps_target:
  "outerClickTarget (fst (handleOuterMouseup event s)) = outerClickTarget s"
  by (simp add: handleOuterMouseup_def outerClickTarget_closeModal)

text \<open>
  C5. The claim asks that the remembered target is cleared after every pointer-up, so that
  a pointer-up without a fresh pointer-down on the background or wrapper cannot close.
  Evaluated on the sample session: a pointer-down on the wrapper (2) remembers it; the
  pointer-up on the content box (11) closes nothing and leaves the target remembered; a
  pointer-down on the content box changes nothing; the pointer-up on the wrapper that
  follows calls \<open>closeModal\<close> and \<^verbatim>\<open>preventDefault\<close>, and no session is left.
\<close>

theorem stale_outer_click_target_closes:
  "handleOuterMousedown \<lparr> target = 2 \<rparr> sample_open = sample_open\<lparr> outerClickTarget := Some 2 \<rparr>
   \<and> handleOuterMouseup \<lparr> target = 11 \<rparr> (sample_open\<lparr> outerClickTarget := Some 2 \<rparr>)
       = (sample_open\<lparr> outerClickTarget := Some 2 \<rparr>, False)
   \<and> handleOuterMousedown \<lparr> target = 11 \<rparr> (sample_open\<lparr> outerClickTarget := Some 2 \<rparr>)
       = sample_open\<lparr> outerClickTarget := Some 2 \<rparr>
   \<and> handleOuterMouseup \<lparr> target = 2 \<rparr> (sample_open\<lparr> outerClickTarget := Some 2 \<rparr>)
       = (closeModal None (sample_open\<lparr> outerClickTarget := Some 2 \<rparr>), True)
   \<and> Component (sample_open\<lparr> outerClickTarget := Some 2 \<rparr>) \<noteq> None
   \<and> Component (closeModal None (sample_open\<lparr> outerClickTarget := Some 2 \<rparr>)) = None"
  by (simp add: handleOuterMousedown_def handleOuterMouseup_def sample_open_outer
      sample_open_markup sample_open_fields Component_closeModal)

section \<open>Content change and loading flag without a session\<close>

text \<open>
  C3, as amended. \<open>changeModalContent\<close> has no guard: whether or not a session exists, the
  content becomes the newly bound component (so without a session the modal appears), the
  configuration becomes the defaults merged with the overrides, and the five style strings
  and the two transitions are recomputed from the new configuration (the background's
  over the size of the window). Nothing else changes: putting the old content,
  configuration, style strings and transitions back gives the old state, so the scroll
  lock, the body, the callbacks, the loading flag and the remembered click target are
  untouched.
\<close>

theorem changeModalContent_sets_content_and_config:
  "Component (changeModalContent C p ov s) = Some (bind C p)
   \<and> map_of (state (changeModalContent C p ov s)) k
       = (case map_of (case ov of None \<Rightarrow> [] | Some x \<Rightarrow> x) k of
            None \<Rightarrow> map_of (defaultState s) k | Some v \<Rightarrow> Some v)
   \<and> cssBg (changeModalContent C p ov s)
       = Some (toCssString (Obj
           (spread (spread [] [(''width'', Num (window_innerWidth s)),
                               (''height'', Num (window_innerHeight s))])
              (own_props (obj_get (state (changeModalContent C p ov s)) ''styleBg'')))))
   \<and> cssWindowWrap (changeModalContent C p ov s)
       = Some (toCssString (obj_get (state (changeModalContent C p ov s)) ''styleWindowWrap''))
   \<and> cssWindow (changeModalContent C p ov s)
       = Some (toCssString (obj_get (state (changeModalContent C p ov s)) ''styleWindow''))
   \<and> cssContent (changeModalContent C p ov s)
       = Some (toCssString (obj_get (state (changeModalContent C p ov s)) ''styleContent''))
   \<and> cssCloseButton (changeModalContent C p ov s)
       = Some (toCssString (obj_get (state (changeModalContent C p ov s)) ''styleCloseButton''))
   \<and> currentTransitionBg (changeModalContent C p ov s)
       = obj_get (state (changeModalContent C p ov s)) ''transitionBg''
   \<and> currentTransitionWindow (changeModalContent C p ov s)
       = obj_get (state (changeModalContent C p ov s)) ''transitionWindow''
   \<and> (changeModalContent C p ov s)
        \<lparr> Component := Component s, state := state s, cssBg := cssBg s,
          cssWindowWrap := cssWindowWrap s, cssWindow := cssWindow s,
          cssContent := cssContent s, cssCloseButton := cssCloseButton s,
          currentTransitionBg := currentTransitionBg s,
          currentTransitionWindow := currentTransitionWindow s \<rparr> = s"
  by (simp add: changeModalContent_def updateStyleTransition_def map_of_merge)

text \<open>
  Against C3 as stated: at creation there is no session; after \<open>changeModalContent\<close> there
  is one, so the state has changed.
\<close>

theorem changeModalContent_without_session_counterexample:
  "Component (initial documented_defaults sample_page) = None
   \<and> Component (changeModalContent (Fn ''X'') None None (initial documented_defaults sample_page))
       = Some (Bound (Fn ''X'') [])
   \<and> changeModalContent (Fn ''X'') None None (initial documented_defaults sample_page)
       \<noteq> initial documented_defaults sample_page"
proof -
  have c0: "Component (initial documented_defaults sample_page) = None"
    by (simp add: initial_def)
  have c1: "Component (changeModalContent (Fn ''X'') None None
              (initial documented_defaults sample_page)) = Some (Bound (Fn ''X'') [])"
    by (simp add: changeModalContent_def updateStyleTransition_def bind_def)
  from c0 c1 have "changeModalContent (Fn ''X'') None None (initial documented_defaults sample_page)
       \<noteq> initial documented_defaults sample_page"
    by (metis option.distinct(1))
  with c0 c1 show ?thesis by blast
qed

text \<open>
  C6, as amended. \<open>isLoading\<close> sets the loading flag of the host (to true when called
  without a flag) and nothing else, whether or not a session exists; \<open>openModal\<close>,
  \<open>changeModalContent\<close> and \<open>closeModal\<close> leave the flag as it is, so a session starts with
  the flag as it was last set.
\<close>

theorem isLoading_sets_host_flag:
  "loading (isLoading flag s) = (case flag of None \<Rightarrow> True | Some b \<Rightarrow> b)
   \<and> (isLoading flag s)\<lparr> loading := loading s \<rparr> = s
   \<and> loading (openModal C p ov cb s) = loading s
   \<and> loading (changeModalContent C p ov s) = loading s
   \<and> loading (closeModal cb s) = loading s"
  by (simp add: isLoading_def openModal_def updateStyleTransition_def changeModalContent_def closeModal_def
      enableScroll_def disableScroll_def Let_def)

text \<open>
  Against C6 as stated: at creation there is no session and the flag is off; \<open>isLoading\<close>
  turns it on all the same, and the session opened next starts with it on, where a session
  opened without that call starts with it off.
\<close>

theorem isLoading_without_session_counterexample:
  "Component (initial documented_defaults sample_page) = None
   \<and> loading (initial documented_defaults sample_page) = False
   \<and> loading (isLoading (Some True) (initial documented_defaults sample_page)) = True
   \<and> loading (openModal (Fn ''X'') None None None (initial documented_defaults sample_page))
       = False
   \<and> loading (openModal (Fn ''X'') None None None
        (isLoading (Some True) (initial documented_defaults sample_page))) = True"
  by (simp add: initial_def isLoading_def openModal_def updateStyleTransition_def disableScroll_def Let_def)

end
